theory Spec2Isabelle
  imports Main "HOL-Library.Char_ord" "HOL-Library.List_Lexorder"
begin

section \<open>The environment of quickstart.go\<close>

text \<open>
  quickstart.go is sequential glue around the operating system (package os), the console
  (package fmt), encoding/json and the OAuth2 and Apps Script client libraries. What its
  functions call is modelled first, by the documented behaviour of each library call, over
  an explicit \<open>world\<close> that is passed through every function; the functions of the
  file are embedded one by one in the next section.
\<close>

subsection \<open>Errors\<close>

text \<open>
  Go's \<open>error\<close> values. The constructors are the error conditions the calls of the
  program can report; \<open>Failure s\<close> is any other error, with its text.
\<close>

datatype err =
    ENOENT | ENOTDIR | EISDIR | EACCES | EEXIST
  | EOF | SyntaxError | UnmarshalTypeError | TimeParseError
  | Failure string

subsection \<open>Strings, times and JSON values\<close>

text \<open>
  A \<open>time.Time\<close> is an instant, counted from Go's zero time. The program never looks
  into one: it only hands it to encoding/json. The expiry of a token is the zero time or
  the time of the exchange plus at most \<open>2^31\<close> seconds, so it has an RFC 3339 text
  (a year within 0..9999) and \<open>Time.MarshalJSON\<close> does not fail on it.
\<close>

type_synonym gotime = int

text \<open>
  The text of a JSON string, and of the string fields decoded from one. encoding/json
  makes a single observation on such a text beyond copying it: whether
  \<open>time.Parse(RFC3339, _)\<close> accepts it, and which instant it then denotes. A text is
  therefore kept as either of
  \<^item> \<open>Stamp t k\<close>: a text that \<open>time.Parse\<close> accepts, reading the instant \<open>t\<close>;
    \<open>k\<close> numbers the spellings of \<open>t\<close>, and spelling \<open>0\<close> is the one that
    \<open>Time.MarshalJSON\<close> prints;
  \<^item> \<open>Str s\<close>: any other text, by its characters.

  Texts are valid UTF-8, which encoding/json writes and reads back unchanged.
\<close>

datatype gotext = Str string | Stamp gotime nat

datatype json =
    JNull
  | JBool bool
  | JNumber int
  | JString gotext
  | JArray "json list"
  | JObject "(string \<times> json) list"

text \<open>
  What a file holds. The byte syntax of JSON belongs to encoding/json's scanner and is not
  modelled: a file is \<open>JSONText v\<close> when its bytes begin with the text of the JSON value
  \<open>v\<close>, and \<open>Bytes bs\<close> (the bytes themselves) when they do not: an empty file, a
  truncated text, a syntax error.
\<close>

datatype content = Bytes string | JSONText json

subsection \<open>The file system\<close>

text \<open>
  A tree of directories and regular files with their permission bits. A path is the list
  of its components from the root. The process runs as the owner of every node, so only
  the owner bits are consulted.
\<close>

type_synonym path = "string list"
type_synonym filemode = nat

datatype node = File filemode content | Dir filemode "string \<Rightarrow> node option"

definition owner_r :: "filemode \<Rightarrow> bool" where
  "owner_r m = odd (m div 256)"

definition owner_w :: "filemode \<Rightarrow> bool" where
  "owner_w m = odd (m div 128)"

definition owner_x :: "filemode \<Rightarrow> bool" where
  "owner_x m = odd (m div 64)"

text \<open>The octal literals of the source: \<open>0600\<close> and \<open>0700\<close>.\<close>

definition perm_0600 :: filemode where
  "perm_0600 = 6 * 64"

definition perm_0700 :: filemode where
  "perm_0700 = 7 * 64"

text \<open>
  Path resolution, as the kernel does it for every system call: every directory on the way
  must be searchable.
\<close>

fun resolve :: "path \<Rightarrow> node \<Rightarrow> err + node" where
  "resolve [] n = Inr n"
| "resolve (c # cs) (File m d) = Inl ENOTDIR"
| "resolve (c # cs) (Dir m es) =
     (if \<not> owner_x m then Inl EACCES
      else case es c of None \<Rightarrow> Inl ENOENT | Some n \<Rightarrow> resolve cs n)"

text \<open>\<open>modify p f root\<close> replaces the node at \<open>p\<close>, when there is one, by its image.\<close>

fun modify :: "path \<Rightarrow> (node \<Rightarrow> node) \<Rightarrow> node \<Rightarrow> node" where
  "modify [] f n = f n"
| "modify (c # cs) f (File m d) = File m d"
| "modify (c # cs) f (Dir m es) =
     (case es c of None \<Rightarrow> Dir m es | Some n \<Rightarrow> Dir m (es(c \<mapsto> modify cs f n)))"

definition add_entry :: "string \<Rightarrow> node \<Rightarrow> node \<Rightarrow> node" where
  "add_entry c new n = (case n of File m d \<Rightarrow> File m d | Dir m es \<Rightarrow> Dir m (es(c \<mapsto> new)))"

definition is_dir :: "node \<Rightarrow> bool" where
  "is_dir n = (case n of File m d \<Rightarrow> False | Dir m es \<Rightarrow> True)"

text \<open>
  \<open>os.Mkdir(path, perm)\<close>: the parent must be a directory the process may search and
  write, and the name must be free.
\<close>

definition os_Mkdir :: "path \<Rightarrow> filemode \<Rightarrow> node \<Rightarrow> err + node" where
  "os_Mkdir p perm root =
     (if p = [] then Inl EEXIST
      else case resolve (butlast p) root of
        Inl e \<Rightarrow> Inl e
      | Inr (File m d) \<Rightarrow> Inl ENOTDIR
      | Inr (Dir m es) \<Rightarrow>
          if \<not> owner_x m then Inl EACCES
          else if es (last p) \<noteq> None then Inl EEXIST
          else if \<not> owner_w m then Inl EACCES
          else Inr (modify (butlast p) (add_entry (last p) (Dir perm Map.empty)) root))"

text \<open>
  \<open>os.MkdirAll(path, perm)\<close>, after its source: the fast path returns when \<open>Stat\<close>
  finds the path (nil for a directory, ENOTDIR otherwise); the slow path makes the parent,
  then calls \<open>os.Mkdir\<close>, and forgives its error when the path is a directory after all. The
  result is the error, if any, and the file system left behind.
\<close>

function os_MkdirAll :: "path \<Rightarrow> filemode \<Rightarrow> node \<Rightarrow> err option \<times> node" where
  "os_MkdirAll p perm root =
     (case resolve p root of
        Inr n \<Rightarrow> (if is_dir n then (None, root) else (Some ENOTDIR, root))
      | Inl e0 \<Rightarrow>
          (if p = [] then (Some e0, root)
           else case os_MkdirAll (butlast p) perm root of
             (Some e, root1) \<Rightarrow> (Some e, root1)
           | (None, root1) \<Rightarrow>
               (case os_Mkdir p perm root1 of
                  Inr root2 \<Rightarrow> (None, root2)
                | Inl e \<Rightarrow>
                    (case resolve p root1 of
                       Inr n \<Rightarrow> if is_dir n then (None, root1) else (Some e, root1)
                     | Inl e1 \<Rightarrow> (Some e, root1)))))"
  by pat_completeness auto
termination
  by (relation "measure (\<lambda>(p, perm, root). length p)") auto

declare os_MkdirAll.simps [simp del]

definition mode_of :: "node \<Rightarrow> filemode" where
  "mode_of n = (case n of File m d \<Rightarrow> m | Dir m es \<Rightarrow> m)"

text \<open>\<open>os.Open(name)\<close> opens for reading; the handle is the node found.\<close>

definition os_Open :: "path \<Rightarrow> node \<Rightarrow> err + node" where
  "os_Open p root =
     (case resolve p root of
        Inl e \<Rightarrow> Inl e
      | Inr n \<Rightarrow> if owner_r (mode_of n) then Inr n else Inl EACCES)"

text \<open>
  \<open>os.OpenFile(name, flag, perm)\<close> for a read-write open. An existing regular file is
  opened as it is, keeping its mode, and emptied under \<open>O_TRUNC\<close>; a missing one is
  created, empty and with mode \<open>perm\<close>, under \<open>O_CREATE\<close>. The modes are the
  permission bits as requested, before the process umask. The file opened is the one at
  the path afterwards.
\<close>

datatype flag = O_RDWR | O_CREATE | O_TRUNC

definition os_OpenFile :: "path \<Rightarrow> flag list \<Rightarrow> filemode \<Rightarrow> node \<Rightarrow> err + node" where
  "os_OpenFile p flags perm root =
     (if p = [] then Inl EISDIR
      else case resolve (butlast p) root of
        Inl e \<Rightarrow> Inl e
      | Inr (File m d) \<Rightarrow> Inl ENOTDIR
      | Inr (Dir m es) \<Rightarrow>
          if \<not> owner_x m then Inl EACCES
          else (case es (last p) of
             Some (Dir fm fes) \<Rightarrow> Inl EISDIR
           | Some (File fm d) \<Rightarrow>
               if \<not> (owner_r fm \<and> owner_w fm) then Inl EACCES
               else if O_TRUNC \<in> set flags
                 then Inr (modify p (\<lambda>n. File fm (Bytes [])) root)
                 else Inr root
           | None \<Rightarrow>
               if O_CREATE \<notin> set flags then Inl ENOENT
               else if \<not> owner_w m then Inl EACCES
               else Inr (modify (butlast p) (add_entry (last p) (File perm (Bytes []))) root)))"

text \<open>
  A write of \<open>d\<close> at the start of the open, emptied file at \<open>p\<close>. The device may refuse
  it (no space left, quota, I/O error): \<open>fault\<close> is then the error, and nothing is
  written.
\<close>

definition set_content :: "content \<Rightarrow> node \<Rightarrow> node" where
  "set_content d n = (case n of File m old \<Rightarrow> File m d | Dir m es \<Rightarrow> Dir m es)"

definition file_Write :: "path \<Rightarrow> content \<Rightarrow> err option \<Rightarrow> node \<Rightarrow> err option \<times> node" where
  "file_Write p d fault root =
     (case fault of
        Some e \<Rightarrow> (Some e, root)
      | None \<Rightarrow> (None, modify p (set_content d) root))"

text \<open>\<open>ioutil.ReadFile(name)\<close>: the whole contents of a regular file.\<close>

definition ioutil_ReadFile :: "path \<Rightarrow> node \<Rightarrow> err + content" where
  "ioutil_ReadFile p root =
     (case os_Open p root of
        Inl e \<Rightarrow> Inl e
      | Inr (File m d) \<Rightarrow> Inr d
      | Inr (Dir m es) \<Rightarrow> Inl EISDIR)"

subsection \<open>oauth2.Token and its JSON form\<close>

text \<open>
  The exported fields of \<open>oauth2.Token\<close>, with their struct tags:
  \<^verbatim>\<open>
  AccessToken  string    json:"access_token"
  TokenType    string    json:"token_type,omitempty"
  RefreshToken string    json:"refresh_token,omitempty"
  Expiry       time.Time json:"expiry,omitempty"
  \<close>
  The unexported field \<open>raw\<close> takes no part in JSON and is left out.
\<close>

record token =
  AccessToken :: gotext
  TokenType :: gotext
  RefreshToken :: gotext
  Expiry :: gotime

text \<open>\<open>&oauth2.Token{}\<close>: empty strings and the zero time.\<close>

definition zero_token :: token where
  "zero_token = \<lparr>AccessToken = Str [], TokenType = Str [], RefreshToken = Str [], Expiry = 0\<rparr>"

text \<open>
  \<open>json.Marshal\<close> of a token: the fields in declaration order; \<open>omitempty\<close> drops an
  empty string and never drops a struct, so \<open>expiry\<close> is always written, as the RFC 3339
  text that \<open>Time.MarshalJSON\<close> prints.
\<close>

definition marshal_token :: "token \<Rightarrow> json" where
  "marshal_token t =
     JObject
       ([(''access_token'', JString (AccessToken t))]
        @ (if TokenType t = Str [] then [] else [(''token_type'', JString (TokenType t))])
        @ (if RefreshToken t = Str [] then [] else [(''refresh_token'', JString (RefreshToken t))])
        @ [(''expiry'', JString (Stamp (Expiry t) 0))])"

datatype field = AccessTokenF | TokenTypeF | RefreshTokenF | ExpiryF

definition token_fields :: "(string \<times> field) list" where
  "token_fields =
     [(''access_token'', AccessTokenF), (''token_type'', TokenTypeF),
      (''refresh_token'', RefreshTokenF), (''expiry'', ExpiryF)]"

text \<open>
  encoding/json's \<open>equalFoldRight\<close>, which compares an ASCII field name with the bytes of
  a key: letters match in either case, and the Kelvin sign (bytes E2 84 AA) and the long s
  (bytes C5 BF) match k and s.
\<close>

definition upper_bits :: "char \<Rightarrow> nat" where
  "upper_bits c = (if odd (of_char c div 32 :: nat) then of_char c - 32 else of_char c)"

fun equalFoldRight :: "string \<Rightarrow> string \<Rightarrow> bool" where
  "equalFoldRight [] t = (t = [])"
| "equalFoldRight (sb # s) [] = False"
| "equalFoldRight (sb # s) (tb # t) =
     (if (of_char tb :: nat) < 128 then
        (if sb = tb then equalFoldRight s t
         else if 65 \<le> upper_bits sb \<and> upper_bits sb \<le> 90 \<and> upper_bits sb = upper_bits tb
           then equalFoldRight s t
           else False)
      else if sb \<in> set ''sS'' then
        (take 2 (tb # t) = [char_of (197::nat), char_of (191::nat)] \<and> equalFoldRight s (tl t))
      else if sb \<in> set ''kK'' then
        (take 3 (tb # t) = [char_of (226::nat), char_of (132::nat), char_of (170::nat)]
         \<and> equalFoldRight s (tl (tl t)))
      else False)"

text \<open>
  The field a key names, as the loop of \<open>decodeState.object\<close> finds it: a field whose
  name is the key exactly, else the first whose name matches it under folding.
\<close>

fun find_field :: "(string \<times> field) list \<Rightarrow> string \<Rightarrow> field option \<Rightarrow> field option" where
  "find_field [] key f = f"
| "find_field ((name, fld) # rest) key f =
     (if name = key then Some fld
      else find_field rest key (if f = None \<and> equalFoldRight name key then Some fld else f))"

definition save_error :: "err option \<Rightarrow> err \<Rightarrow> err option" where
  "save_error saved e = (case saved of None \<Rightarrow> Some e | Some e0 \<Rightarrow> Some e0)"

text \<open>
  Storing a JSON value into a string field: a string is copied, \<open>null\<close> changes nothing,
  any other value is an \<open>UnmarshalTypeError\<close>, which is saved while decoding goes on.
\<close>

definition store_string :: "json \<Rightarrow> gotext \<Rightarrow> err option \<Rightarrow> gotext \<times> err option" where
  "store_string v old saved =
     (case v of
        JNull \<Rightarrow> (old, saved)
      | JString s \<Rightarrow> (s, saved)
      | JBool b \<Rightarrow> (old, save_error saved UnmarshalTypeError)
      | JNumber n \<Rightarrow> (old, save_error saved UnmarshalTypeError)
      | JArray xs \<Rightarrow> (old, save_error saved UnmarshalTypeError)
      | JObject ms \<Rightarrow> (old, save_error saved UnmarshalTypeError))"

text \<open>
  \<open>Time.UnmarshalJSON\<close>: \<open>null\<close> changes nothing, a string that \<open>time.Parse\<close> accepts
  sets the time, anything else is an error.
\<close>

definition time_UnmarshalJSON :: "json \<Rightarrow> gotime \<Rightarrow> err + gotime" where
  "time_UnmarshalJSON v old =
     (case v of
        JNull \<Rightarrow> Inr old
      | JString (Stamp i k) \<Rightarrow> Inr i
      | JString (Str s) \<Rightarrow> Inl TimeParseError
      | JBool b \<Rightarrow> Inl TimeParseError
      | JNumber n \<Rightarrow> Inl TimeParseError
      | JArray xs \<Rightarrow> Inl TimeParseError
      | JObject ms \<Rightarrow> Inl TimeParseError)"

text \<open>
  The members of a JSON object, in order, decoded into a token. A key that names no field
  is skipped. An error of \<open>Time.UnmarshalJSON\<close> ends the decoding at once; the fields set
  so far stay.
\<close>

fun object_members :: "(string \<times> json) list \<Rightarrow> token \<Rightarrow> err option \<Rightarrow> token \<times> err option" where
  "object_members [] t saved = (t, saved)"
| "object_members ((key, v) # ms) t saved =
     (case find_field token_fields key None of
        None \<Rightarrow> object_members ms t saved
      | Some AccessTokenF \<Rightarrow>
          (case store_string v (AccessToken t) saved of
             (s, saved') \<Rightarrow> object_members ms (t\<lparr>AccessToken := s\<rparr>) saved')
      | Some TokenTypeF \<Rightarrow>
          (case store_string v (TokenType t) saved of
             (s, saved') \<Rightarrow> object_members ms (t\<lparr>TokenType := s\<rparr>) saved')
      | Some RefreshTokenF \<Rightarrow>
          (case store_string v (RefreshToken t) saved of
             (s, saved') \<Rightarrow> object_members ms (t\<lparr>RefreshToken := s\<rparr>) saved')
      | Some ExpiryF \<Rightarrow>
          (case time_UnmarshalJSON v (Expiry t) of
             Inl e \<Rightarrow> (t, Some e)
           | Inr i \<Rightarrow> object_members ms (t\<lparr>Expiry := i\<rparr>) saved))"

text \<open>
  \<open>json.Unmarshal\<close> into a \<open>*oauth2.Token\<close>: \<open>null\<close> leaves the token as it is, an
  object is decoded member by member, every other value is an \<open>UnmarshalTypeError\<close>.
\<close>

definition unmarshal_token :: "json \<Rightarrow> token \<Rightarrow> token \<times> err option" where
  "unmarshal_token v t =
     (case v of
        JNull \<Rightarrow> (t, None)
      | JObject ms \<Rightarrow> object_members ms t None
      | JBool b \<Rightarrow> (t, Some UnmarshalTypeError)
      | JNumber n \<Rightarrow> (t, Some UnmarshalTypeError)
      | JString s \<Rightarrow> (t, Some UnmarshalTypeError)
      | JArray xs \<Rightarrow> (t, Some UnmarshalTypeError))"

text \<open>
  \<open>json.NewDecoder(f).Decode(t)\<close> on the handle \<open>f\<close>: reading a directory fails, an empty
  file gives \<open>io.EOF\<close>, other bytes that are not JSON a syntax error.
\<close>

definition json_Decode :: "node \<Rightarrow> token \<Rightarrow> token \<times> err option" where
  "json_Decode f t =
     (case f of
        Dir m es \<Rightarrow> (t, Some EISDIR)
      | File m (Bytes bs) \<Rightarrow> (t, Some (if bs = [] then EOF else SyntaxError))
      | File m (JSONText v) \<Rightarrow> unmarshal_token v t)"

text \<open>
  \<open>json.NewEncoder(f).Encode(token)\<close> on the file opened at \<open>p\<close>: one write of the
  token's JSON text. Its result is the error of that write.
\<close>

definition json_Encode :: "path \<Rightarrow> token \<Rightarrow> err option \<Rightarrow> node \<Rightarrow> err option \<times> node" where
  "json_Encode p t fault root = file_Write p (JSONText (marshal_token t)) fault root"

subsection \<open>URLs and the OAuth2 configuration\<close>

text \<open>
  \<open>url.QueryEscape\<close>: letters, digits and \<open>- _ . ~\<close> stand for themselves, a space
  becomes \<open>+\<close>, every other byte \<open>%XX\<close> in upper-case hexadecimal.
\<close>

definition unreserved :: "char \<Rightarrow> bool" where
  "unreserved c =
     ((CHR ''a'' \<le> c \<and> c \<le> CHR ''z'') \<or> (CHR ''A'' \<le> c \<and> c \<le> CHR ''Z'')
      \<or> (CHR ''0'' \<le> c \<and> c \<le> CHR ''9'') \<or> c \<in> set ''-_.~'')"

definition hexdigit :: "nat \<Rightarrow> char" where
  "hexdigit n = ''0123456789ABCDEF'' ! (n mod 16)"

definition escape_byte :: "char \<Rightarrow> string" where
  "escape_byte c =
     (if unreserved c then [c]
      else if c = CHR '' '' then ''+''
      else [CHR ''%'', hexdigit (of_char c div 16), hexdigit (of_char c)])"

definition url_QueryEscape :: "string \<Rightarrow> string" where
  "url_QueryEscape s = concat (map escape_byte s)"

text \<open>\<open>strings.Join(xs, sep)\<close>.\<close>

fun strings_Join :: "string list \<Rightarrow> string \<Rightarrow> string" where
  "strings_Join [] sep = []"
| "strings_Join [x] sep = x"
| "strings_Join (x # y # ys) sep = x @ sep @ strings_Join (y # ys) sep"

text \<open>
  \<open>url.Values\<close>, a map from a key to its values, and \<open>Values.Encode\<close>, which writes
  \<open>key=value\<close> for every value, escaped, sorted by key and joined by \<open>&\<close>.
\<close>

type_synonym url_values = "(string \<times> string list) list"

definition values_Set :: "string \<Rightarrow> string \<Rightarrow> url_values \<Rightarrow> url_values" where
  "values_Set k x vs = (k, [x]) # filter (\<lambda>kv. fst kv \<noteq> k) vs"

definition values_Encode :: "url_values \<Rightarrow> string" where
  "values_Encode vs =
     strings_Join
       (concat (map (\<lambda>kv. map (\<lambda>x. url_QueryEscape (fst kv) @ ''='' @ url_QueryEscape x) (snd kv))
                    (sort_key fst vs)))
       ''&''"

text \<open>\<open>oauth2.Config\<close>, its endpoint flattened into the two URLs.\<close>

record config =
  ClientID :: string
  ClientSecret :: string
  RedirectURL :: string
  Scopes :: "string list"
  AuthURL :: string
  TokenURL :: string

text \<open>\<open>internal.CondVal\<close>: no value for the empty string.\<close>

definition CondVal :: "string \<Rightarrow> string list" where
  "CondVal v = (if v = [] then [] else [v])"

text \<open>An \<open>AuthCodeOption\<close> sets one URL parameter; \<open>AccessTypeOffline\<close> is one.\<close>

type_synonym auth_code_option = "string \<times> string"

definition AccessTypeOffline :: auth_code_option where
  "AccessTypeOffline = (''access_type'', ''offline'')"

text \<open>\<open>Config.AuthCodeURL(state, opts...)\<close>, after its source.\<close>

definition AuthCodeURL :: "config \<Rightarrow> string \<Rightarrow> auth_code_option list \<Rightarrow> string" where
  "AuthCodeURL c state opts =
     (let v = [(''response_type'', [''code'']),
               (''client_id'', [ClientID c]),
               (''redirect_uri'', CondVal (RedirectURL c)),
               (''scope'', CondVal (strings_Join (Scopes c) '' '')),
               (''state'', CondVal state)];
          v' = fold (\<lambda>opt vs. values_Set (fst opt) (snd opt) vs) opts v
      in AuthURL c @ (if CHR ''?'' \<in> set (AuthURL c) then ''&'' else ''?'') @ values_Encode v')"

subsection \<open>The world\<close>

text \<open>
  \<open>config.Client(ctx, tok)\<close> is an HTTP client built around the configuration and the
  token handed to it; \<open>tok\<close> is a pointer, so it may be nil.
\<close>

datatype http_client = Client config "token option"

text \<open>The response of \<open>Scripts.Run\<close>: a \<open>script.Operation\<close>.\<close>

datatype status = Status int string

record operation =
  Error :: "status option"
  Response :: string

datatype service = Service http_client

text \<open>What the process prints or asks of the outside, in order.\<close>

datatype arg = AString string | APath path | AError err | AStatus status

datatype event =
    Printf string "arg list"
  | Scan "string option"
  | Exchange config string
  | ScriptsRun string string

text \<open>
  The state of the outside that the program reads or changes:
  \<^item> \<open>user_Current\<close>: what \<open>user.Current()\<close> returns, the home directory or an error;
  \<^item> \<open>cwd\<close>: the working directory, against which a relative name is resolved;
  \<^item> \<open>fs\<close>: the file system;
  \<^item> \<open>write_fault\<close>: the error the device gives to a write, if it refuses writes;
  \<^item> \<open>stdin\<close>: the words still to come on standard input;
  \<^item> \<open>token_endpoint\<close>: what the authorization server answers to the exchange of a code;
  \<^item> \<open>google_ConfigFromJSON\<close>: the library's reading of the client secret file;
  \<^item> \<open>script_endpoint\<close>: what the Apps Script API answers to a run request, the first
    component being the transport error;
  \<^item> \<open>trace\<close>: the console and network events so far.
\<close>

record world =
  user_Current :: "err + path"
  cwd :: path
  fs :: node
  write_fault :: "err option"
  stdin :: "string list"
  token_endpoint :: "config \<Rightarrow> string \<Rightarrow> err + token"
  google_ConfigFromJSON :: "content \<Rightarrow> string list \<Rightarrow> err + config"
  script_endpoint :: "http_client \<Rightarrow> string \<Rightarrow> string \<Rightarrow> err + operation"
  trace :: "event list"

text \<open>
  A function of the program either returns or ends the process in \<open>log.Fatalf\<close>, with
  the format and arguments of its message.
\<close>

datatype 'a result = Fatal string "arg list" | Returned 'a

definition fmt_Printf :: "string \<Rightarrow> arg list \<Rightarrow> world \<Rightarrow> world" where
  "fmt_Printf format args w = w\<lparr>trace := trace w @ [Printf format args]\<rparr>"

text \<open>\<open>fmt.Scan(&code)\<close> takes the next word of standard input; there may be none.\<close>

definition fmt_Scan :: "world \<Rightarrow> (err + string) \<times> world" where
  "fmt_Scan w =
     (case stdin w of
        [] \<Rightarrow> (Inl EOF, w\<lparr>trace := trace w @ [Scan None]\<rparr>)
      | c # cs \<Rightarrow> (Inr c, w\<lparr>stdin := cs, trace := trace w @ [Scan (Some c)]\<rparr>))"

text \<open>\<open>config.Exchange(ctx, code)\<close>: one request to the token endpoint.\<close>

definition config_Exchange :: "config \<Rightarrow> string \<Rightarrow> world \<Rightarrow> (err + token) \<times> world" where
  "config_Exchange c code w =
     (token_endpoint w c code, w\<lparr>trace := trace w @ [Exchange c code]\<rparr>)"

definition filepath_Join :: "path \<Rightarrow> string \<Rightarrow> path" where
  "filepath_Join dir name = dir @ [name]"

definition newline :: string where
  "newline = [char_of (10::nat)]"

section \<open>The functions of quickstart.go\<close>

text \<open>
  \<open>tokenCacheFile\<close> (lines 56-65). The result of \<open>os.MkdirAll\<close> is dropped; the error
  returned with the path is the nil of \<open>user.Current\<close>.
\<close>

definition tokenCacheFile :: "world \<Rightarrow> (path \<times> err option) \<times> world" where
  "tokenCacheFile w =
     (case user_Current w of
        Inl e \<Rightarrow> (([], Some e), w)
      | Inr HomeDir \<Rightarrow>
          (let tokenCacheDir = filepath_Join HomeDir ''.credentials'';
               w1 = w\<lparr>fs := snd (os_MkdirAll tokenCacheDir perm_0700 (fs w))\<rparr>
           in ((filepath_Join tokenCacheDir (url_QueryEscape ''script-go-quickstart.json''), None),
               w1)))"

text \<open>\<open>tokenFromFile\<close> (lines 69-78): the token pointer and the error.\<close>

definition tokenFromFile :: "path \<Rightarrow> world \<Rightarrow> token option \<times> err option" where
  "tokenFromFile file w =
     (case os_Open file (fs w) of
        Inl e \<Rightarrow> (None, Some e)
      | Inr f \<Rightarrow>
          (case json_Decode f zero_token of
             (t, e) \<Rightarrow> (Some t, e)))"

text \<open>
  \<open>saveToken\<close> (lines 82-90). Only the error of \<open>os.OpenFile\<close> is looked at; the result
  of \<open>Encode\<close> is dropped.
\<close>

definition saveToken :: "path \<Rightarrow> token \<Rightarrow> world \<Rightarrow> unit result \<times> world" where
  "saveToken file tok w =
     (let w1 = fmt_Printf (''Saving credential file to: %s'' @ newline) [APath file] w
      in case os_OpenFile file [O_RDWR, O_CREATE, O_TRUNC] perm_0600 (fs w1) of
           Inl e \<Rightarrow> (Fatal ''Unable to cache oauth token: %v'' [AError e], w1)
         | Inr root \<Rightarrow>
             (Returned (),
              w1\<lparr>fs := snd (json_Encode file tok (write_fault w1) root)\<rparr>))"

text \<open>\<open>getTokenFromWeb\<close> (lines 37-52).\<close>

definition getTokenFromWeb :: "config \<Rightarrow> world \<Rightarrow> token result \<times> world" where
  "getTokenFromWeb c w =
     (let authURL = AuthCodeURL c ''state-token'' [AccessTypeOffline];
          w1 = fmt_Printf
                 (''Go to the following link in your browser then type the ''
                  @ ''authorization code: '' @ newline @ ''%v'' @ newline)
                 [AString authURL] w
      in case fmt_Scan w1 of
           (Inl e, w2) \<Rightarrow> (Fatal ''Unable to read authorization code %v'' [AError e], w2)
         | (Inr code, w2) \<Rightarrow>
             (case config_Exchange c code w2 of
                (Inl e, w3) \<Rightarrow> (Fatal ''Unable to retrieve token from web %v'' [AError e], w3)
              | (Inr tok, w3) \<Rightarrow> (Returned tok, w3)))"

text \<open>\<open>getClient\<close> (lines 22-33).\<close>

definition getClient :: "config \<Rightarrow> world \<Rightarrow> http_client result \<times> world" where
  "getClient c w =
     (case tokenCacheFile w of
        ((cacheFile, Some e), w1) \<Rightarrow>
          (Fatal ''Unable to get path to cached credential file. %v'' [AError e], w1)
      | ((cacheFile, None), w1) \<Rightarrow>
          (case tokenFromFile cacheFile w1 of
             (tok, None) \<Rightarrow> (Returned (Client c tok), w1)
           | (tok, Some e) \<Rightarrow>
               (case getTokenFromWeb c w1 of
                  (Fatal f a, w2) \<Rightarrow> (Fatal f a, w2)
                | (Returned tok', w2) \<Rightarrow>
                    (case saveToken cacheFile tok' w2 of
                       (Fatal f a, w3) \<Rightarrow> (Fatal f a, w3)
                     | (Returned u, w3) \<Rightarrow> (Returned (Client c (Some tok')), w3)))))"

text \<open>
  \<open>script.New(client)\<close> fails only on a nil client, which \<open>config.Client\<close> never
  returns.
\<close>

definition script_New :: "http_client \<Rightarrow> err + service" where
  "script_New client = Inr (Service client)"

text \<open>\<open>srv.Scripts.Run(scriptId, &req).Do()\<close>: one request to the API.\<close>

definition scripts_Run_Do :: "service \<Rightarrow> string \<Rightarrow> string \<Rightarrow> world \<Rightarrow> (err + operation) \<times> world" where
  "scripts_Run_Do srv scriptId function_name w =
     (case srv of Service client \<Rightarrow>
        (script_endpoint w client scriptId function_name,
         w\<lparr>trace := trace w @ [ScriptsRun scriptId function_name]\<rparr>))"

text \<open>
  \<open>main\<close> (lines 92-163). Its result is the way the process ends: \<open>Returned ()\<close> when
  \<open>main\<close> returns, which is exit code 0, and \<open>Fatal\<close> for \<open>log.Fatalf\<close>, which prints
  the message and exits with code 1.
\<close>

definition main :: "world \<Rightarrow> unit result \<times> world" where
  "main w =
     (case ioutil_ReadFile (filepath_Join (cwd w) ''client_secret.json'') (fs w) of
        Inl e \<Rightarrow> (Fatal ''Unable to read client secret file: %v'' [AError e], w)
      | Inr b \<Rightarrow>
          (case google_ConfigFromJSON w b [''https://www.googleapis.com/auth/drive''] of
             Inl e \<Rightarrow> (Fatal ''Unable to parse client secret file to config: %v'' [AError e], w)
           | Inr c \<Rightarrow>
               (let scriptId = ''Mn_YoQoNj_iufS59FmWsY-JgYYRqhh78z'' in
                case getClient c w of
                  (Fatal f a, w1) \<Rightarrow> (Fatal f a, w1)
                | (Returned client, w1) \<Rightarrow>
                    (case script_New client of
                       Inl e \<Rightarrow> (Fatal ''Unable to retrieve script Client %v'' [AError e], w1)
                     | Inr srv \<Rightarrow>
                         (case scripts_Run_Do srv scriptId ''getFoldersUnderRoot'' w1 of
                            (Inl e, w2) \<Rightarrow>
                              (Fatal ''Unable to execute Apps Script function. %v'' [AError e], w2)
                          | (Inr resp, w2) \<Rightarrow>
                              (case Error resp of
                                 Some st \<Rightarrow> (Returned (), fmt_Printf ''%s'' [AStatus st] w2)
                               | None \<Rightarrow>
                                   (Returned (),
                                    fmt_Printf ''%s'' [AString (Response resp)] w2)))))))"

definition exit_code :: "unit result \<Rightarrow> nat" where
  "exit_code r = (case r of Fatal f a \<Rightarrow> 1 | Returned u \<Rightarrow> 0)"

section \<open>The cache path and example worlds\<close>

text \<open>
  The directory and the file that \<open>tokenCacheFile\<close> computes from a home directory.
\<close>

definition cache_dir_of :: "path \<Rightarrow> path" where
  "cache_dir_of home = filepath_Join home ''.credentials''"

definition cache_file_of :: "path \<Rightarrow> path" where
  "cache_file_of home = filepath_Join (cache_dir_of home) ''script-go-quickstart.json''"

text \<open>The format that \<open>getTokenFromWeb\<close> prints the authorization URL with.\<close>

definition prompt_format :: string where
  "prompt_format =
     ''Go to the following link in your browser then type the ''
     @ ''authorization code: '' @ newline @ ''%v'' @ newline"


text \<open>
  A concrete machine for the examples: the user \<open>u\<close> with home \<open>/home/u\<close>, a working
  directory holding \<open>client_secret.json\<close>, one word waiting on standard input, and an
  authorization server that accepts exactly that word. \<open>example_fs credentials\<close> has
  \<open>credentials\<close> as the entry \<open>/home/u/.credentials\<close>, or none. Modes are written in
  decimal: 0755 is 493, 0700 is 448, 0644 is 420, 0600 is 384, 0555 is 365.
\<close>

definition example_config :: config where
  "example_config =
     \<lparr>ClientID = ''id 1.apps.example'', ClientSecret = ''secret'',
      RedirectURL = ''urn:ietf:wg:oauth:2.0:oob'',
      Scopes = [''https://www.googleapis.com/auth/drive''],
      AuthURL = ''https://accounts.example/o/oauth2/auth'',
      TokenURL = ''https://accounts.example/o/oauth2/token''\<rparr>"

definition stored_token :: token where
  "stored_token =
     \<lparr>AccessToken = Str ''ya29.stored'', TokenType = Str ''Bearer'',
      RefreshToken = Str ''1/refresh'', Expiry = 5\<rparr>"

definition fresh_token :: token where
  "fresh_token =
     \<lparr>AccessToken = Str ''ya29.fresh'', TokenType = Str ''Bearer'',
      RefreshToken = Str [], Expiry = 7\<rparr>"

definition example_home :: path where
  "example_home = [''home'', ''u'']"

definition example_fs :: "node option \<Rightarrow> node" where
  "example_fs credentials =
     Dir 493
       [''home'' \<mapsto> Dir 493 [''u'' \<mapsto> Dir 448 (Map.empty(''.credentials'' := credentials))],
        ''work'' \<mapsto> Dir 448 [''client_secret.json'' \<mapsto> File 384 (JSONText (JObject []))]]"

text \<open>The cache directory holding \<open>entry\<close> as the cache file.\<close>

definition credentials_dir :: "filemode \<Rightarrow> node \<Rightarrow> node option" where
  "credentials_dir m entry = Some (Dir m [''script-go-quickstart.json'' \<mapsto> entry])"

definition example_world :: "node option \<Rightarrow> world" where
  "example_world credentials =
     \<lparr>user_Current = Inr example_home,
      cwd = [''work''],
      fs = example_fs credentials,
      write_fault = None,
      stdin = [''4/code''],
      token_endpoint =
        (\<lambda>c code. if code = ''4/code'' then Inr fresh_token else Inl (Failure ''invalid_grant'')),
      google_ConfigFromJSON = (\<lambda>b scopes. Inr (example_config\<lparr>Scopes := scopes\<rparr>)),
      script_endpoint =
        (\<lambda>client scriptId function_name.
           Inr \<lparr>Error = Some (Status 3 ''ScriptError''), Response = []\<rparr>),
      trace = []\<rparr>"


text \<open>The machine whose cache file holds \<open>stored_token\<close>, as \<open>saveToken\<close> writes it.\<close>

definition hit_world :: world where
  "hit_world =
     example_world (credentials_dir 448 (File 384 (JSONText (marshal_token stored_token))))"

text \<open>
  Further machines: the cache directory exists and is empty; the cache file holds bytes
  that are not JSON, under mode 0644 in a directory of mode 0755; the word on standard
  input is not the code the server expects; the device refuses every write, on a first run
  and with the cache directory in place.
\<close>

definition empty_dir_world :: world where
  "empty_dir_world = example_world (Some (Dir 448 Map.empty))"

definition stale_world :: world where
  "stale_world = example_world (credentials_dir 493 (File 420 (Bytes ''stale'')))"

definition bad_code_world :: world where
  "bad_code_world = (example_world None)\<lparr>stdin := [''wrong'']\<rparr>"

definition full_disk_world :: world where
  "full_disk_world =
     (example_world None)\<lparr>write_fault := Some (Failure ''no space left on device'')\<rparr>"

definition full_disk_dir_world :: world where
  "full_disk_dir_world =
     empty_dir_world\<lparr>write_fault := Some (Failure ''no space left on device'')\<rparr>"

text \<open>
  Further: nothing comes on standard input; the user database has no entry for the
  process; the home directory is not writable, so the cache directory cannot be made.
\<close>

definition silent_world :: world where
  "silent_world = (example_world None)\<lparr>stdin := []\<rparr>"

definition homeless_world :: world where
  "homeless_world = (example_world None)\<lparr>user_Current := Inl (Failure ''user: unknown userid 1000'')\<rparr>"

definition readonly_home_world :: world where
  "readonly_home_world =
     (example_world None)
       \<lparr>fs := Dir 493 [''home'' \<mapsto> Dir 493 [''u'' \<mapsto> Dir 365 Map.empty]]\<rparr>"

text \<open>
  The cache file holds a JSON value that is not a credential: the empty array, the empty
  object.
\<close>

definition empty_object_world :: world where
  "empty_object_world = example_world (credentials_dir 448 (File 384 (JSONText (JObject []))))"

definition array_world :: world where
  "array_world = example_world (credentials_dir 448 (File 384 (JSONText (JArray []))))"

section \<open>The file system calls\<close>

lemma perm_bits [simp]:
  "owner_r perm_0600" "owner_w perm_0600" "owner_x perm_0700" "owner_w perm_0700" "owner_r perm_0700"
  by (simp_all add: owner_r_def owner_w_def owner_x_def perm_0600_def perm_0700_def)

lemma QueryEscape_filename:
  "url_QueryEscape ''script-go-quickstart.json'' = ''script-go-quickstart.json''"
  by (simp add: url_QueryEscape_def escape_byte_def unreserved_def)

lemma resolve_append:
  "resolve (p @ q) root = (case resolve p root of Inl e \<Rightarrow> Inl e | Inr n \<Rightarrow> resolve q n)"
proof (induction p arbitrary: root)
  case Nil
  show ?case by simp
next
  case (Cons c cs)
  show ?case
    by (cases root) (simp_all add: Cons.IH split: option.splits)
qed

lemma resolve_modify:
  "resolve p root = Inr n \<Longrightarrow> resolve (p @ q) (modify p f root) = resolve q (f n)"
proof (induction p arbitrary: root)
  case Nil
  then show ?case by simp
next
  case (Cons c cs)
  then show ?case
    by (cases root) (auto split: option.splits if_splits)
qed

lemma resolve_parent_dir:
  assumes "resolve (d @ [f]) root = Inr n"
  shows "\<exists>m es. resolve d root = Inr (Dir m es) \<and> owner_x m \<and> es f = Some n"
proof (cases "resolve d root")
  case (Inl e)
  with assms show ?thesis by (simp add: resolve_append)
next
  case (Inr k)
  with assms show ?thesis
    by (cases k) (auto simp: resolve_append split: if_splits option.splits)
qed

lemma MkdirAll_existing:
  "resolve p root = Inr (Dir m es) \<Longrightarrow> os_MkdirAll p perm root = (None, root)"
  by (simp add: os_MkdirAll.simps is_dir_def)

lemma Mkdir_cases:
  assumes "os_Mkdir p perm root = Inr root'"
  obtains m es where "p \<noteq> []" and "resolve (butlast p) root = Inr (Dir m es)"
    and "owner_x m" and "owner_w m" and "es (last p) = None"
    and "root' = modify (butlast p) (add_entry (last p) (Dir perm Map.empty)) root"
  using assms unfolding os_Mkdir_def
  by (auto split: if_splits sum.splits node.splits)

lemma Mkdir_below:
  assumes "os_Mkdir p perm root = Inr root'" and "owner_x perm" and "q \<noteq> []"
  shows "resolve (p @ q) root' = resolve (p @ q) root"
proof -
  from assms(1) obtain m es where p: "p \<noteq> []"
    and par: "resolve (butlast p) root = Inr (Dir m es)"
    and m: "owner_x m" and free: "es (last p) = None"
    and root': "root' = modify (butlast p) (add_entry (last p) (Dir perm Map.empty)) root"
    by (rule Mkdir_cases)
  obtain c cs where q: "q = c # cs" using assms(3) by (cases q) auto
  have split: "p @ q = butlast p @ (last p # q)" using p by simp
  have "resolve (p @ q) root' = resolve (last p # q) (add_entry (last p) (Dir perm Map.empty) (Dir m es))"
    unfolding split root' by (rule resolve_modify [OF par])
  also have "\<dots> = Inl ENOENT"
    using m assms(2) by (simp add: add_entry_def q)
  finally have new: "resolve (p @ q) root' = Inl ENOENT" .
  have "resolve (p @ q) root = resolve (last p # q) (Dir m es)"
    unfolding split by (simp add: resolve_append par)
  also have "\<dots> = Inl ENOENT" using m free by simp
  finally show ?thesis using new by simp
qed




lemma MkdirAll_below:
  "os_MkdirAll p perm root = (r, root') \<Longrightarrow> owner_x perm \<Longrightarrow> q \<noteq> [] \<Longrightarrow>
     resolve (p @ q) root' = resolve (p @ q) root"
proof (induction p perm root arbitrary: r root' q rule: os_MkdirAll.induct)
  case (1 p perm root)
  show ?case
  proof (cases "resolve p root")
    case (Inr n)
    with "1.prems" show ?thesis by (simp add: os_MkdirAll.simps split: if_splits)
  next
    case (Inl e0)
    show ?thesis
    proof (cases "p = []")
      case True
      with Inl show ?thesis by simp
    next
      case False
      obtain r1 root1 where rec: "os_MkdirAll (butlast p) perm root = (r1, root1)"
        by (cases "os_MkdirAll (butlast p) perm root") auto
      have split: "p @ q = butlast p @ (last p # q)"
        using False by simp
      have "resolve (butlast p @ (last p # q)) root1 = resolve (butlast p @ (last p # q)) root"
        using "1.IH" [OF Inl False rec] "1.prems"(2) by simp
      then have IH: "resolve (p @ q) root1 = resolve (p @ q) root"
        unfolding split .
      show ?thesis
      proof (cases "os_Mkdir p perm root1")
        case (Inr root2)
        show ?thesis
        proof (cases r1)
          case None
          have "os_MkdirAll p perm root = (None, root2)"
            using Inl False rec None Inr by (simp add: os_MkdirAll.simps [of p])
          with "1.prems" have "root' = root2" by simp
          then show ?thesis using Mkdir_below [OF Inr "1.prems"(2,3)] IH by simp
        next
          case (Some e)
          have "os_MkdirAll p perm root = (Some e, root1)"
            using Inl False rec Some by (simp add: os_MkdirAll.simps [of p])
          with "1.prems" IH show ?thesis by simp
        qed
      next
        case failed: (Inl e)
        have "snd (os_MkdirAll p perm root) = root1"
          using Inl False rec failed
          by (simp add: os_MkdirAll.simps [of p] split: sum.splits option.splits)
        with "1.prems" IH show ?thesis by simp
      qed
    qed
  qed
qed


section \<open>Saving and loading a token\<close>

lemma find_field_names:
  "find_field token_fields ''access_token'' None = Some AccessTokenF"
  "find_field token_fields ''token_type'' None = Some TokenTypeF"
  "find_field token_fields ''refresh_token'' None = Some RefreshTokenF"
  "find_field token_fields ''expiry'' None = Some ExpiryF"
  by (simp_all add: token_fields_def)

lemma unmarshal_marshal:
  "unmarshal_token (marshal_token t) zero_token = (t, None)"
  by (cases t)
     (simp add: unmarshal_token_def marshal_token_def find_field_names zero_token_def
        store_string_def time_UnmarshalJSON_def)


lemma resolve_modify_here:
  "resolve p root = Inr n \<Longrightarrow> resolve p (modify p f root) = Inr (f n)"
  using resolve_modify [of p root n "[]" f] by simp

lemma OpenFile_cases:
  assumes "os_OpenFile p flags perm root = Inr root'"
  obtains (existing) m es fm d where "p \<noteq> []" and "resolve (butlast p) root = Inr (Dir m es)"
      and "owner_x m" and "es (last p) = Some (File fm d)" and "owner_r fm" and "owner_w fm"
      and "root' = (if O_TRUNC \<in> set flags then modify p (\<lambda>n. File fm (Bytes [])) root else root)"
    | (created) m es where "p \<noteq> []" and "resolve (butlast p) root = Inr (Dir m es)"
      and "owner_x m" and "es (last p) = None" and "O_CREATE \<in> set flags" and "owner_w m"
      and "root' = modify (butlast p) (add_entry (last p) (File perm (Bytes []))) root"
  using assms unfolding os_OpenFile_def
  by (auto split: if_splits sum.splits node.splits option.splits)

text \<open>What the open of saveToken leaves at the path.\<close>

lemma OpenFile_trunc:
  assumes "os_OpenFile p [O_RDWR, O_CREATE, O_TRUNC] perm root = Inr root'"
  shows "(\<exists>fm d. resolve p root = Inr (File fm d) \<and> owner_r fm \<and> owner_w fm
              \<and> resolve p root' = Inr (File fm (Bytes [])))
       \<or> (resolve p root = Inl ENOENT \<and> resolve p root' = Inr (File perm (Bytes [])))"
  using assms
proof (cases rule: OpenFile_cases)
  case (existing m es fm d)
  have split: "p = butlast p @ [last p]" using existing(1) by simp
  have old: "resolve p root = Inr (File fm d)"
    using existing(2,3,4) by (subst split) (simp add: resolve_append)
  have "resolve p root' = Inr (File fm (Bytes []))"
    using existing(7) resolve_modify_here [OF old] by simp
  with old existing(5,6) show ?thesis by simp
next
  case (created m es)
  have split: "p = butlast p @ [last p]" using created(1) by simp
  have old: "resolve p root = Inl ENOENT"
    using created(2,3,4) by (subst split) (simp add: resolve_append)
  have "resolve (butlast p @ [last p]) root'
      = resolve [last p] (add_entry (last p) (File perm (Bytes [])) (Dir m es))"
    unfolding created(7) by (rule resolve_modify [OF created(2)])
  then have "resolve p root' = Inr (File perm (Bytes []))"
    using created(3) split by (simp add: add_entry_def)
  with old show ?thesis by simp
qed

lemma saveToken_cases:
  assumes "saveToken file tok w = (Returned u, w')"
  obtains root where
    "os_OpenFile file [O_RDWR, O_CREATE, O_TRUNC] perm_0600 (fs w) = Inr root"
    and "w' = w\<lparr>trace := trace w @ [Printf (''Saving credential file to: %s'' @ newline) [APath file]],
               fs := snd (json_Encode file tok (write_fault w) root)\<rparr>"
  using assms
  by (auto simp: saveToken_def fmt_Printf_def Let_def split: sum.splits)

lemma saveToken_written:
  assumes "saveToken file tok w = (Returned u, w')" and "write_fault w = None"
  shows "\<exists>fm. resolve file (fs w') = Inr (File fm (JSONText (marshal_token tok)))
            \<and> owner_r fm
            \<and> fm = (case resolve file (fs w) of Inr n \<Rightarrow> mode_of n | Inl e \<Rightarrow> perm_0600)"
proof -
  from assms(1) obtain root where
    opened: "os_OpenFile file [O_RDWR, O_CREATE, O_TRUNC] perm_0600 (fs w) = Inr root"
    and w': "w' = w\<lparr>trace := trace w @ [Printf (''Saving credential file to: %s'' @ newline) [APath file]],
               fs := snd (json_Encode file tok (write_fault w) root)\<rparr>"
    by (rule saveToken_cases)
  have fs': "fs w' = modify file (set_content (JSONText (marshal_token tok))) root"
    using w' assms(2) by (simp add: json_Encode_def file_Write_def)
  from OpenFile_trunc [OF opened] show ?thesis
  proof
    assume "\<exists>fm d. resolve file (fs w) = Inr (File fm d) \<and> owner_r fm \<and> owner_w fm
              \<and> resolve file root = Inr (File fm (Bytes []))"
    then obtain fm d where old: "resolve file (fs w) = Inr (File fm d)" and r: "owner_r fm"
      and emptied: "resolve file root = Inr (File fm (Bytes []))" by blast
    show ?thesis
      using resolve_modify_here [OF emptied] old r
      by (simp add: fs' set_content_def mode_of_def)
  next
    assume "resolve file (fs w) = Inl ENOENT \<and> resolve file root = Inr (File perm_0600 (Bytes []))"
    then have old: "resolve file (fs w) = Inl ENOENT"
      and made: "resolve file root = Inr (File perm_0600 (Bytes []))" by simp_all
    show ?thesis
      using resolve_modify_here [OF made] old
      by (simp add: fs' set_content_def)
  qed
qed

lemma saveToken_written_readable:
  assumes "saveToken file tok w = (Returned u, w')" and "write_fault w = None"
  shows "tokenFromFile file w' = (Some tok, None)"
proof -
  from saveToken_written [OF assms] obtain fm
    where "resolve file (fs w') = Inr (File fm (JSONText (marshal_token tok)))" and "owner_r fm"
    by blast
  then show ?thesis
    by (simp add: tokenFromFile_def os_Open_def mode_of_def json_Decode_def unmarshal_marshal)
qed

section \<open>The two branches of getClient\<close>

lemma tokenCacheFile_home:
  assumes "user_Current w = Inr home"
  shows "tokenCacheFile w =
           ((cache_file_of home, None),
            w\<lparr>fs := snd (os_MkdirAll (cache_dir_of home) perm_0700 (fs w))\<rparr>)"
  using assms
  by (simp add: tokenCacheFile_def cache_file_of_def cache_dir_of_def QueryEscape_filename Let_def)

lemma tokenCacheFile_keeps_cache_file:
  assumes "user_Current w = Inr home"
  shows "resolve (cache_file_of home) (fs (snd (tokenCacheFile w)))
           = resolve (cache_file_of home) (fs w)"
proof -
  obtain r root' where mk: "os_MkdirAll (cache_dir_of home) perm_0700 (fs w) = (r, root')"
    by (cases "os_MkdirAll (cache_dir_of home) perm_0700 (fs w)") auto
  have "resolve (cache_dir_of home @ [''script-go-quickstart.json'']) root'
          = resolve (cache_dir_of home @ [''script-go-quickstart.json'']) (fs w)"
    by (rule MkdirAll_below [OF mk]) simp_all
  then show ?thesis
    by (simp add: tokenCacheFile_home [OF assms] mk cache_file_of_def filepath_Join_def)
qed

lemma tokenFromFile_resolve:
  "resolve file (fs w') = resolve file (fs w) \<Longrightarrow> tokenFromFile file w' = tokenFromFile file w"
  by (simp add: tokenFromFile_def os_Open_def)

lemma tokenFromFile_found:
  assumes "tokenFromFile file w = (tok, None)"
  shows "\<exists>n t. resolve file (fs w) = Inr n \<and> owner_r (mode_of n) \<and> tok = Some t"
  using assms
  by (auto simp: tokenFromFile_def os_Open_def split: sum.splits if_splits prod.splits)

lemma tokenCacheFile_hit_unchanged:
  assumes "user_Current w = Inr home" and "resolve (cache_file_of home) (fs w) = Inr n"
  shows "tokenCacheFile w = ((cache_file_of home, None), w)"
proof -
  from assms(2) obtain m es where "resolve (cache_dir_of home) (fs w) = Inr (Dir m es)"
    using resolve_parent_dir [of "cache_dir_of home" "''script-go-quickstart.json''" "fs w" n]
    by (auto simp: cache_file_of_def filepath_Join_def)
  then have "os_MkdirAll (cache_dir_of home) perm_0700 (fs w) = (None, fs w)"
    by (rule MkdirAll_existing)
  then show ?thesis
    by (simp add: tokenCacheFile_home [OF assms(1)])
qed

lemma getClient_hit:
  assumes "user_Current w = Inr home" and "tokenFromFile (cache_file_of home) w = (tok, None)"
  shows "getClient c w = (Returned (Client c tok), w)"
proof -
  from tokenFromFile_found [OF assms(2)] obtain n
    where "resolve (cache_file_of home) (fs w) = Inr n" by blast
  then have "tokenCacheFile w = ((cache_file_of home, None), w)"
    by (rule tokenCacheFile_hit_unchanged [OF assms(1)])
  then show ?thesis using assms(2) by (simp add: getClient_def)
qed

lemma getClient_miss:
  assumes "user_Current w = Inr home" and "tokenFromFile (cache_file_of home) w = (x, Some e)"
  shows "getClient c w =
           (case getTokenFromWeb c (snd (tokenCacheFile w)) of
              (Fatal f a, w2) \<Rightarrow> (Fatal f a, w2)
            | (Returned tok', w2) \<Rightarrow>
                (case saveToken (cache_file_of home) tok' w2 of
                   (Fatal f a, w3) \<Rightarrow> (Fatal f a, w3)
                 | (Returned u, w3) \<Rightarrow> (Returned (Client c (Some tok')), w3)))"
proof -
  have "tokenFromFile (cache_file_of home) (snd (tokenCacheFile w)) = (x, Some e)"
    using tokenFromFile_resolve [OF tokenCacheFile_keeps_cache_file [OF assms(1)]] assms(2)
    by simp
  then show ?thesis
    by (simp add: getClient_def tokenCacheFile_home [OF assms(1)])
qed

lemma AuthCodeURL_offline:
  "AuthCodeURL c ''state-token'' [AccessTypeOffline] =
     AuthURL c @ (if CHR ''?'' \<in> set (AuthURL c) then ''&'' else ''?'')
     @ ''access_type=offline&client_id='' @ url_QueryEscape (ClientID c)
     @ (if RedirectURL c = [] then [] else ''&redirect_uri='' @ url_QueryEscape (RedirectURL c))
     @ ''&response_type=code''
     @ (if strings_Join (Scopes c) '' '' = [] then []
        else ''&scope='' @ url_QueryEscape (strings_Join (Scopes c) '' ''))
     @ ''&state=state-token''"
  apply (simp add: AuthCodeURL_def AccessTypeOffline_def values_Set_def values_Encode_def CondVal_def Let_def)
  apply (simp add: QueryEscape_filename url_QueryEscape_def escape_byte_def unreserved_def)
  done

lemma getTokenFromWeb_trace:
  "\<exists>rest. trace (snd (getTokenFromWeb c w)) =
     trace w @ [Printf prompt_format [AString (AuthCodeURL c ''state-token'' [AccessTypeOffline])],
                Scan (case stdin w of [] \<Rightarrow> None | code # words \<Rightarrow> Some code)] @ rest"
  by (cases "stdin w")
     (auto simp: getTokenFromWeb_def fmt_Printf_def fmt_Scan_def config_Exchange_def Let_def prompt_format_def
       split: sum.splits)

lemma saveToken_trace:
  "\<exists>rest. trace (snd (saveToken file tok w)) = trace w @ rest"
  by (auto simp: saveToken_def fmt_Printf_def Let_def split: sum.splits)

lemma tokenCacheFile_fields:
  "trace (snd (tokenCacheFile w)) = trace w"
  "stdin (snd (tokenCacheFile w)) = stdin w"
  "token_endpoint (snd (tokenCacheFile w)) = token_endpoint w"
  "write_fault (snd (tokenCacheFile w)) = write_fault w"
  by (simp_all add: tokenCacheFile_def Let_def split: sum.splits)

lemma getTokenFromWeb_fields:
  "fs (snd (getTokenFromWeb c w)) = fs w"
  "write_fault (snd (getTokenFromWeb c w)) = write_fault w"
  by (auto simp: getTokenFromWeb_def fmt_Printf_def fmt_Scan_def config_Exchange_def Let_def
       split: sum.splits list.splits)

lemma mode_of_modify: "q \<noteq> [] \<Longrightarrow> mode_of (modify q f n) = mode_of n"
  by (cases q; cases n) (simp_all add: mode_of_def split: option.splits)



section \<open>Running the example machines\<close>

lemmas mode_defs = owner_r_def owner_w_def owner_x_def perm_0600_def perm_0700_def

lemmas example_defs =
  example_world_def example_fs_def credentials_dir_def example_home_def cache_file_of_def
  cache_dir_of_def filepath_Join_def stored_token_def fresh_token_def example_config_def
  hit_world_def empty_dir_world_def stale_world_def bad_code_world_def full_disk_world_def
  full_disk_dir_world_def array_world_def empty_object_world_def silent_world_def
  homeless_world_def readonly_home_world_def

lemmas decode_defs =
  tokenFromFile_def os_Open_def mode_of_def json_Decode_def unmarshal_token_def
  marshal_token_def token_fields_def zero_token_def store_string_def time_UnmarshalJSON_def

lemmas run_defs =
  getClient_def tokenCacheFile_def getTokenFromWeb_def saveToken_def fmt_Printf_def fmt_Scan_def
  config_Exchange_def os_OpenFile_def json_Encode_def file_Write_def os_Mkdir_def add_entry_def
  set_content_def is_dir_def Let_def QueryEscape_filename os_MkdirAll.simps

lemma example_homes:
  "user_Current hit_world = Inr example_home"
  "user_Current (example_world None) = Inr example_home"
  "user_Current stale_world = Inr example_home"
  "user_Current bad_code_world = Inr example_home"
  "user_Current empty_object_world = Inr example_home"
  "user_Current array_world = Inr example_home"
  "user_Current silent_world = Inr example_home"
  by (simp_all add: example_defs)

lemma hit_world_file:
  "tokenFromFile (cache_file_of example_home) hit_world = (Some stored_token, None)"
  by (simp add: decode_defs example_defs mode_defs)

lemma first_run_miss:
  "tokenFromFile (cache_file_of example_home) (example_world None) = (None, Some ENOENT)"
  by (simp add: decode_defs example_defs mode_defs)

lemma bad_code_miss:
  "tokenFromFile (cache_file_of example_home) bad_code_world = (None, Some ENOENT)"
  by (simp add: decode_defs example_defs mode_defs)

lemma silent_miss:
  "tokenFromFile (cache_file_of example_home) silent_world = (None, Some ENOENT)"
  by (simp add: decode_defs example_defs mode_defs)


lemma first_run_client:
  "fst (getClient example_config (example_world None))
     = Returned (Client example_config (Some fresh_token))"
  by (simp add: run_defs example_defs mode_defs decode_defs)



section \<open>The claims\<close>

text \<open>
  C1. When the cache file exists and its contents deserialize into a credential, that is,
  when \<open>tokenFromFile\<close> on the cache path gives a token and no error, \<open>getClient\<close>
  returns a client built on exactly that token, whatever its \<open>Expiry\<close>; the trace gains
  no event (nothing is printed, standard input is not read, the token endpoint is not
  called) and standard input is left as it was.
\<close>

theorem cache_hit_returns_stored_credential:
  assumes "user_Current w = Inr home"
    and "tokenFromFile (cache_file_of home) w = (Some tok, None)"
  shows "fst (getClient c w) = Returned (Client c (Some tok))
       \<and> trace (snd (getClient c w)) = trace w
       \<and> stdin (snd (getClient c w)) = stdin w"
  by (simp add: getClient_hit [OF assms])

theorem cache_hit_returns_stored_credential_witness:
  "user_Current hit_world = Inr example_home
   \<and> tokenFromFile (cache_file_of example_home) hit_world = (Some stored_token, None)
   \<and> fst (getClient example_config hit_world) = Returned (Client example_config (Some stored_token))
   \<and> trace (snd (getClient example_config hit_world)) = []
   \<and> stdin (snd (getClient example_config hit_world)) = [''4/code'']"
proof -
  have home: "user_Current hit_world = Inr example_home"
    by (rule example_homes)
  show ?thesis
    using cache_hit_returns_stored_credential [OF home hit_world_file, of example_config]
      home hit_world_file
    by (simp add: example_defs)
qed

text \<open>
  C2 on the code. On a first run with a device that refuses the write, \<open>getClient\<close>
  returns a client on the fresh token, and the cache file does not hold it: reading it
  back gives \<open>io.EOF\<close>.
\<close>

theorem returned_credential_not_in_cache:
  "fst (getClient example_config full_disk_world)
     = Returned (Client example_config (Some fresh_token))
   \<and> tokenFromFile (cache_file_of example_home) (snd (getClient example_config full_disk_world))
       = (Some zero_token, Some EOF)"
  by (simp add: run_defs example_defs mode_defs decode_defs)

text \<open>
  The guarantee of \<open>getClient\<close>, for a device that takes the write: after \<open>getClient\<close>
  has returned, the cache file reads back as the credential the client was built on, on
  the hit path and on the miss path.
\<close>

theorem cache_holds_returned_credential:
  assumes "user_Current w = Inr home" and "write_fault w = None"
    and "fst (getClient c w) = Returned (Client c' tok)"
  shows "tokenFromFile (cache_file_of home) (snd (getClient c w)) = (tok, None)"
proof (cases "snd (tokenFromFile (cache_file_of home) w)")
  case None
  then obtain x where hit: "tokenFromFile (cache_file_of home) w = (x, None)"
    by (cases "tokenFromFile (cache_file_of home) w") auto
  from getClient_hit [OF assms(1) hit, of c] assms(3) hit show ?thesis by simp
next
  case (Some e)
  then obtain x where miss: "tokenFromFile (cache_file_of home) w = (x, Some e)"
    by (cases "tokenFromFile (cache_file_of home) w") auto
  let ?w1 = "snd (tokenCacheFile w)"
  note eq = getClient_miss [OF assms(1) miss, of c]
  obtain r w2 where web: "getTokenFromWeb c ?w1 = (r, w2)"
    by (cases "getTokenFromWeb c ?w1") auto
  then obtain t where r: "r = Returned t"
    using eq assms(3) by (cases r) simp_all
  obtain r3 w3 where save: "saveToken (cache_file_of home) t w2 = (r3, w3)"
    by (cases "saveToken (cache_file_of home) t w2") auto
  then have r3: "r3 = Returned ()" and tok: "tok = Some t" and w3: "snd (getClient c w) = w3"
    using eq web r assms(3) by (cases r3; simp)+
  have fault2: "write_fault w2 = None"
    using getTokenFromWeb_fields [of c ?w1] web assms(2) by (simp add: tokenCacheFile_fields)
  from saveToken_written_readable [OF save [unfolded r3] fault2] tok w3 show ?thesis by simp
qed


theorem cache_holds_returned_credential_witness:
  "user_Current (example_world None) = Inr example_home
   \<and> write_fault (example_world None) = None
   \<and> fst (getClient example_config (example_world None))
       = Returned (Client example_config (Some fresh_token))
   \<and> tokenFromFile (cache_file_of example_home)
        (snd (getClient example_config (example_world None)))
       = (Some fresh_token, None)"
proof -
  have device: "write_fault (example_world None) = None"
    by (simp add: example_defs)
  show ?thesis
    using cache_holds_returned_credential [OF example_homes(2) device first_run_client]
      example_homes(2) device first_run_client
    by simp
qed

text \<open>
  C3 on the code. The device refuses the write of \<open>Encode\<close>; \<open>saveToken\<close> has opened
  and emptied the file, drops the error, and returns. The file is left empty.
\<close>

theorem write_error_is_not_fatal:
  "write_fault full_disk_dir_world = Some (Failure ''no space left on device'')
   \<and> fst (saveToken (cache_file_of example_home) fresh_token full_disk_dir_world) = Returned ()
   \<and> resolve (cache_file_of example_home)
        (fs (snd (saveToken (cache_file_of example_home) fresh_token full_disk_dir_world)))
       = Inr (File perm_0600 (Bytes []))"
  by (simp add: run_defs example_defs mode_defs)

text \<open>
  C4. When the exchange of the code that was read fails, \<open>getClient\<close> ends in
  \<open>log.Fatalf\<close> with the message of \<open>getTokenFromWeb\<close> and the error of the exchange.
  The trace has one prompt, one read and one exchange, and nothing after: no retry, no
  second prompt, and \<open>saveToken\<close> did not print. The file system is the one that
  \<open>os.MkdirAll\<close> left, and the cache path resolves as it did before the call: to the
  same node, or to the same error.
\<close>

theorem failed_exchange_is_fatal:
  assumes "user_Current w = Inr home" and "tokenFromFile (cache_file_of home) w = (x, Some e)"
    and "stdin w = code # words" and "token_endpoint w c code = Inl e'"
  shows "fst (getClient c w) = Fatal ''Unable to retrieve token from web %v'' [AError e']
       \<and> resolve (cache_file_of home) (fs (snd (getClient c w))) = resolve (cache_file_of home) (fs w)
       \<and> fs (snd (getClient c w)) = snd (os_MkdirAll (cache_dir_of home) perm_0700 (fs w))
       \<and> trace (snd (getClient c w)) =
           trace w @ [Printf prompt_format [AString (AuthCodeURL c ''state-token'' [AccessTypeOffline])],
                      Scan (Some code), Exchange c code]
       \<and> stdin (snd (getClient c w)) = words"
proof -
  have "getClient c w =
          (Fatal ''Unable to retrieve token from web %v'' [AError e'],
           (snd (tokenCacheFile w))
             \<lparr>stdin := words,
              trace := trace w @ [Printf prompt_format [AString (AuthCodeURL c ''state-token'' [AccessTypeOffline])],
                      Scan (Some code), Exchange c code]\<rparr>)"
    using assms(3,4)
    by (simp add: getClient_miss [OF assms(1,2)] getTokenFromWeb_def fmt_Printf_def fmt_Scan_def
          config_Exchange_def Let_def prompt_format_def tokenCacheFile_fields)
  then show ?thesis
    using tokenCacheFile_keeps_cache_file [OF assms(1)]
    by (simp add: tokenCacheFile_home [OF assms(1)])
qed


theorem failed_exchange_is_fatal_witness:
  "user_Current bad_code_world = Inr example_home
   \<and> tokenFromFile (cache_file_of example_home) bad_code_world = (None, Some ENOENT)
   \<and> stdin bad_code_world = [''wrong'']
   \<and> token_endpoint bad_code_world example_config ''wrong'' = Inl (Failure ''invalid_grant'')
   \<and> fst (getClient example_config bad_code_world)
       = Fatal ''Unable to retrieve token from web %v'' [AError (Failure ''invalid_grant'')]
   \<and> resolve (cache_file_of example_home) (fs (snd (getClient example_config bad_code_world)))
       = Inl ENOENT
   \<and> stdin (snd (getClient example_config bad_code_world)) = []"
proof -
  have words: "stdin bad_code_world = [''wrong'']"
    by (simp add: example_defs)
  have refused: "token_endpoint bad_code_world example_config ''wrong''
                   = Inl (Failure ''invalid_grant'')"
    by (simp add: example_defs)
  have absent: "resolve (cache_file_of example_home) (fs bad_code_world) = Inl ENOENT"
    by (simp add: example_defs mode_defs)
  note run = failed_exchange_is_fatal [OF example_homes(4) bad_code_miss words refused]
  from run have fatal: "fst (getClient example_config bad_code_world)
       = Fatal ''Unable to retrieve token from web %v'' [AError (Failure ''invalid_grant'')]"
    by blast
  from run have "resolve (cache_file_of example_home)
                   (fs (snd (getClient example_config bad_code_world)))
                 = resolve (cache_file_of example_home) (fs bad_code_world)"
    by blast
  then have kept: "resolve (cache_file_of example_home)
                     (fs (snd (getClient example_config bad_code_world))) = Inl ENOENT"
    by (simp only: absent)
  from run have read: "stdin (snd (getClient example_config bad_code_world)) = []"
    by blast
  show ?thesis
    using example_homes(4) bad_code_miss words refused fatal kept read
    by blast
qed






text \<open>
  C7. When reading the cache file fails, for whatever reason (the file is absent,
  unreadable or does not deserialize), \<open>getClient\<close> does not end there: its result is
  that of \<open>getTokenFromWeb\<close> followed by \<open>saveToken\<close>. The first thing it does is to
  print the authorization URL, the next is to read one word from standard input, and
  everything else comes after. The URL carries the escaped client id and scope of the
  configuration, the fixed state \<open>state-token\<close> and \<open>access_type=offline\<close>.
\<close>

theorem cache_miss_starts_interactive_flow:
  assumes "user_Current w = Inr home" and "tokenFromFile (cache_file_of home) w = (x, Some e)"
  shows "getClient c w =
           (case getTokenFromWeb c (snd (tokenCacheFile w)) of
              (Fatal f a, w2) \<Rightarrow> (Fatal f a, w2)
            | (Returned tok', w2) \<Rightarrow>
                (case saveToken (cache_file_of home) tok' w2 of
                   (Fatal f a, w3) \<Rightarrow> (Fatal f a, w3)
                 | (Returned u, w3) \<Rightarrow> (Returned (Client c (Some tok')), w3)))
       \<and> (\<exists>rest. trace (snd (getClient c w)) =
             trace w @ [Printf prompt_format [AString (AuthCodeURL c ''state-token'' [AccessTypeOffline])],
                        Scan (case stdin w of [] \<Rightarrow> None | code # words \<Rightarrow> Some code)] @ rest)
       \<and> AuthCodeURL c ''state-token'' [AccessTypeOffline] =
            AuthURL c @ (if CHR ''?'' \<in> set (AuthURL c) then ''&'' else ''?'')
            @ ''access_type=offline&client_id='' @ url_QueryEscape (ClientID c)
            @ (if RedirectURL c = [] then [] else ''&redirect_uri='' @ url_QueryEscape (RedirectURL c))
            @ ''&response_type=code''
            @ (if strings_Join (Scopes c) '' '' = [] then []
               else ''&scope='' @ url_QueryEscape (strings_Join (Scopes c) '' ''))
            @ ''&state=state-token''"
proof -
  let ?w1 = "snd (tokenCacheFile w)"
  have eq: "getClient c w =
           (case getTokenFromWeb c ?w1 of
              (Fatal f a, w2) \<Rightarrow> (Fatal f a, w2)
            | (Returned tok', w2) \<Rightarrow>
                (case saveToken (cache_file_of home) tok' w2 of
                   (Fatal f a, w3) \<Rightarrow> (Fatal f a, w3)
                 | (Returned u, w3) \<Rightarrow> (Returned (Client c (Some tok')), w3)))"
    by (rule getClient_miss [OF assms])
  obtain r w2 where web: "getTokenFromWeb c ?w1 = (r, w2)"
    by (cases "getTokenFromWeb c ?w1") auto
  from getTokenFromWeb_trace [of c ?w1] obtain rest where
    t2: "trace w2 = trace w @ [Printf prompt_format [AString (AuthCodeURL c ''state-token'' [AccessTypeOffline])],
                Scan (case stdin w of [] \<Rightarrow> None | code # words \<Rightarrow> Some code)] @ rest"
    by (auto simp: web tokenCacheFile_fields)
  have "\<exists>rest. trace (snd (getClient c w)) =
             trace w @ [Printf prompt_format [AString (AuthCodeURL c ''state-token'' [AccessTypeOffline])],
                        Scan (case stdin w of [] \<Rightarrow> None | code # words \<Rightarrow> Some code)] @ rest"
  proof (cases r)
    case (Fatal f a)
    then show ?thesis using eq web t2 by simp
  next
    case (Returned tok')
    obtain r3 w3 where save: "saveToken (cache_file_of home) tok' w2 = (r3, w3)"
      by (cases "saveToken (cache_file_of home) tok' w2") auto
    from saveToken_trace [of "cache_file_of home" tok' w2] obtain tail_events
      where "trace w3 = trace w2 @ tail_events" by (auto simp: save)
    then show ?thesis using eq web t2 Returned save by (cases r3) simp_all
  qed
  with eq AuthCodeURL_offline show ?thesis by blast
qed

theorem cache_miss_starts_interactive_flow_witness:
  "user_Current (example_world None) = Inr example_home
   \<and> tokenFromFile (cache_file_of example_home) (example_world None) = (None, Some ENOENT)
   \<and> fst (getClient example_config (example_world None))
       = Returned (Client example_config (Some fresh_token))
   \<and> (\<exists>rest. trace (snd (getClient example_config (example_world None))) =
         [Printf prompt_format
            [AString (''https://accounts.example/o/oauth2/auth?access_type=offline''
                      @ ''&client_id=id+1.apps.example''
                      @ ''&redirect_uri=urn%3Aietf%3Awg%3Aoauth%3A2.0%3Aoob''
                      @ ''&response_type=code''
                      @ ''&scope=https%3A%2F%2Fwww.googleapis.com%2Fauth%2Fdrive''
                      @ ''&state=state-token'')],
          Scan (Some ''4/code'')] @ rest)"
proof -
  have url: "AuthCodeURL example_config ''state-token'' [AccessTypeOffline] =
               ''https://accounts.example/o/oauth2/auth?access_type=offline''
               @ ''&client_id=id+1.apps.example''
               @ ''&redirect_uri=urn%3Aietf%3Awg%3Aoauth%3A2.0%3Aoob''
               @ ''&response_type=code''
               @ ''&scope=https%3A%2F%2Fwww.googleapis.com%2Fauth%2Fdrive''
               @ ''&state=state-token''"
    by (simp add: AuthCodeURL_offline example_config_def url_QueryEscape_def escape_byte_def
          unreserved_def hexdigit_def)
  have "\<exists>rest. trace (snd (getClient example_config (example_world None))) =
          trace (example_world None)
          @ [Printf prompt_format [AString (AuthCodeURL example_config ''state-token'' [AccessTypeOffline])],
             Scan (case stdin (example_world None) of [] \<Rightarrow> None | code # words \<Rightarrow> Some code)]
          @ rest"
    using cache_miss_starts_interactive_flow [OF example_homes(2) first_run_miss, of example_config]
    by blast
  then have "\<exists>rest. trace (snd (getClient example_config (example_world None))) =
          [Printf prompt_format [AString (AuthCodeURL example_config ''state-token'' [AccessTypeOffline])],
           Scan (Some ''4/code'')] @ rest"
    by (simp add: example_world_def)
  then show ?thesis
    using example_homes(2) first_run_miss first_run_client by (simp only: url)
qed

text \<open>
  C8. Once \<open>main\<close> has its client, the way the process ends follows the remote call
  alone. A transport error ends it in \<open>log.Fatalf\<close>, exit code 1. A response ends it with
  exit code 0 in either case: when the response carries a function-level error, that
  error is printed and \<open>main\<close> returns; otherwise the raw response is printed.
\<close>

theorem remote_error_is_printed:
  assumes "ioutil_ReadFile (filepath_Join (cwd w) ''client_secret.json'') (fs w) = Inr b"
    and "google_ConfigFromJSON w b [''https://www.googleapis.com/auth/drive''] = Inr c"
    and "getClient c w = (Returned client, w1)"
  shows "case script_endpoint w1 client ''Mn_YoQoNj_iufS59FmWsY-JgYYRqhh78z'' ''getFoldersUnderRoot'' of
           Inl e \<Rightarrow>
             fst (main w) = Fatal ''Unable to execute Apps Script function. %v'' [AError e]
             \<and> exit_code (fst (main w)) = 1
         | Inr resp \<Rightarrow>
             exit_code (fst (main w)) = 0
             \<and> (case Error resp of
                  Some st \<Rightarrow>
                    main w = (Returned (),
                      w1\<lparr>trace := trace w1
                            @ [ScriptsRun ''Mn_YoQoNj_iufS59FmWsY-JgYYRqhh78z'' ''getFoldersUnderRoot'',
                               Printf ''%s'' [AStatus st]]\<rparr>)
                | None \<Rightarrow>
                    main w = (Returned (),
                      w1\<lparr>trace := trace w1
                            @ [ScriptsRun ''Mn_YoQoNj_iufS59FmWsY-JgYYRqhh78z'' ''getFoldersUnderRoot'',
                               Printf ''%s'' [AString (Response resp)]]\<rparr>))"
  using assms
  by (simp add: main_def script_New_def scripts_Run_Do_def fmt_Printf_def exit_code_def Let_def
        split: sum.splits option.splits)

theorem remote_error_is_printed_witness:
  "ioutil_ReadFile (filepath_Join (cwd (example_world None)) ''client_secret.json'')
       (fs (example_world None)) = Inr (JSONText (JObject []))
   \<and> google_ConfigFromJSON (example_world None) (JSONText (JObject []))
         [''https://www.googleapis.com/auth/drive''] = Inr example_config
   \<and> fst (getClient example_config (example_world None))
       = Returned (Client example_config (Some fresh_token))
   \<and> script_endpoint (snd (getClient example_config (example_world None)))
         (Client example_config (Some fresh_token))
         ''Mn_YoQoNj_iufS59FmWsY-JgYYRqhh78z'' ''getFoldersUnderRoot''
       = Inr \<lparr>Error = Some (Status 3 ''ScriptError''), Response = []\<rparr>
   \<and> exit_code (fst (main (example_world None))) = 0
   \<and> fst (main (example_world None)) = Returned ()
   \<and> trace (snd (main (example_world None)))
       = trace (snd (getClient example_config (example_world None)))
         @ [ScriptsRun ''Mn_YoQoNj_iufS59FmWsY-JgYYRqhh78z'' ''getFoldersUnderRoot'',
            Printf ''%s'' [AStatus (Status 3 ''ScriptError'')]]"
proof -
  have secret: "ioutil_ReadFile (filepath_Join (cwd (example_world None)) ''client_secret.json'')
                  (fs (example_world None)) = Inr (JSONText (JObject []))"
    by (simp add: ioutil_ReadFile_def os_Open_def mode_of_def example_defs mode_defs)
  have parsed: "google_ConfigFromJSON (example_world None) (JSONText (JObject []))
                  [''https://www.googleapis.com/auth/drive''] = Inr example_config"
    by (simp add: example_defs)
  have client: "getClient example_config (example_world None)
                  = (Returned (Client example_config (Some fresh_token)),
                     snd (getClient example_config (example_world None)))"
    using first_run_client by (cases "getClient example_config (example_world None)") simp
  have answer: "script_endpoint (snd (getClient example_config (example_world None)))
                  (Client example_config (Some fresh_token))
                  ''Mn_YoQoNj_iufS59FmWsY-JgYYRqhh78z'' ''getFoldersUnderRoot''
                = Inr \<lparr>Error = Some (Status 3 ''ScriptError''), Response = []\<rparr>"
    by (simp add: run_defs example_defs mode_defs decode_defs)
  show ?thesis
    using remote_error_is_printed [OF secret parsed client]
      secret parsed first_run_client answer
    by (simp add: exit_code_def)
qed





text \<open>
  C10. On the cache-hit path \<open>getClient\<close> writes nothing: the file system afterwards is
  the file system before, so every path resolves as it did, the cache file included
  (\<open>os.MkdirAll\<close> finds the directory and makes none); and the trace holds no new event,
  so \<open>saveToken\<close>, which prints first, was not called.
\<close>

theorem cache_hit_writes_nothing:
  assumes "user_Current w = Inr home"
    and "tokenFromFile (cache_file_of home) w = (Some tok, None)"
  shows "fs (snd (getClient c w)) = fs w
       \<and> (\<forall>p. resolve p (fs (snd (getClient c w))) = resolve p (fs w))
       \<and> trace (snd (getClient c w)) = trace w"
  by (simp add: getClient_hit [OF assms])

theorem cache_hit_writes_nothing_witness:
  "user_Current hit_world = Inr example_home
   \<and> tokenFromFile (cache_file_of example_home) hit_world = (Some stored_token, None)
   \<and> fs (snd (getClient example_config hit_world)) = fs hit_world
   \<and> resolve (cache_file_of example_home) (fs (snd (getClient example_config hit_world)))
        = Inr (File 384 (JSONText (marshal_token stored_token)))"
proof -
  have home: "user_Current hit_world = Inr example_home"
    by (rule example_homes)
  have cached: "resolve (cache_file_of example_home) (fs hit_world)
                = Inr (File 384 (JSONText (marshal_token stored_token)))"
    by (simp add: example_defs mode_defs)
  show ?thesis
    using cache_hit_writes_nothing [OF home hit_world_file, of example_config]
      home hit_world_file cached
    by simp
qed

section \<open>The other fatal errors\<close>

text \<open>
  The error of \<open>os.OpenFile\<close> in \<open>saveToken\<close> ends the process, after the line that
  names the path has been printed.
\<close>

theorem open_error_is_fatal:
  assumes "os_OpenFile path [O_RDWR, O_CREATE, O_TRUNC] perm_0600 (fs w) = Inl e"
  shows "saveToken path tok w =
           (Fatal ''Unable to cache oauth token: %v'' [AError e],
            w\<lparr>trace := trace w @ [Printf (''Saving credential file to: %s'' @ newline) [APath path]]\<rparr>)"
  using assms by (simp add: saveToken_def fmt_Printf_def Let_def)

theorem open_error_is_fatal_witness:
  "os_OpenFile (cache_file_of example_home) [O_RDWR, O_CREATE, O_TRUNC] perm_0600
       (fs (example_world None)) = Inl ENOENT
   \<and> fst (saveToken (cache_file_of example_home) fresh_token (example_world None))
       = Fatal ''Unable to cache oauth token: %v'' [AError ENOENT]
   \<and> fs (snd (saveToken (cache_file_of example_home) fresh_token (example_world None)))
       = fs (example_world None)"
proof -
  have missing: "os_OpenFile (cache_file_of example_home) [O_RDWR, O_CREATE, O_TRUNC] perm_0600
                   (fs (example_world None)) = Inl ENOENT"
    by (simp add: os_OpenFile_def example_defs mode_defs)
  show ?thesis
    using open_error_is_fatal [OF missing, of fresh_token] missing by simp
qed

text \<open>
  When nothing can be read from standard input on a cache miss, \<open>getClient\<close> ends in
  \<open>log.Fatalf\<close> after the prompt and the failed read: the token endpoint is not called,
  and the cache path resolves as before.
\<close>

theorem missing_code_is_fatal:
  assumes "user_Current w = Inr home" and "tokenFromFile (cache_file_of home) w = (x, Some e)"
    and "stdin w = []"
  shows "fst (getClient c w) = Fatal ''Unable to read authorization code %v'' [AError EOF]
       \<and> trace (snd (getClient c w)) =
           trace w @ [Printf prompt_format [AString (AuthCodeURL c ''state-token'' [AccessTypeOffline])],
                      Scan None]
       \<and> resolve (cache_file_of home) (fs (snd (getClient c w))) = resolve (cache_file_of home) (fs w)"
proof -
  have "getClient c w =
          (Fatal ''Unable to read authorization code %v'' [AError EOF],
           (snd (tokenCacheFile w))
             \<lparr>trace := trace w @ [Printf prompt_format [AString (AuthCodeURL c ''state-token'' [AccessTypeOffline])],
                      Scan None]\<rparr>)"
    using assms(3)
    by (simp add: getClient_miss [OF assms(1,2)] getTokenFromWeb_def fmt_Printf_def fmt_Scan_def
          Let_def prompt_format_def tokenCacheFile_fields)
  then show ?thesis
    using tokenCacheFile_keeps_cache_file [OF assms(1)]
    by (simp add: tokenCacheFile_home [OF assms(1)])
qed

theorem missing_code_is_fatal_witness:
  "user_Current silent_world = Inr example_home
   \<and> tokenFromFile (cache_file_of example_home) silent_world = (None, Some ENOENT)
   \<and> stdin silent_world = []
   \<and> fst (getClient example_config silent_world)
       = Fatal ''Unable to read authorization code %v'' [AError EOF]"
proof -
  have no_input: "stdin silent_world = []"
    by (simp add: example_defs)
  from missing_code_is_fatal [OF example_homes(7) silent_miss no_input, of example_config]
  have "fst (getClient example_config silent_world)
          = Fatal ''Unable to read authorization code %v'' [AError EOF]"
    by blast
  then show ?thesis
    using example_homes(7) silent_miss no_input by blast
qed

text \<open>
  When \<open>user.Current\<close> fails, \<open>getClient\<close> ends in \<open>log.Fatalf\<close> at once and the
  world is untouched.
\<close>

theorem unknown_user_is_fatal:
  assumes "user_Current w = Inl e"
  shows "getClient c w =
           (Fatal ''Unable to get path to cached credential file. %v'' [AError e], w)"
  using assms by (simp add: getClient_def tokenCacheFile_def)

theorem unknown_user_is_fatal_witness:
  "user_Current homeless_world = Inl (Failure ''user: unknown userid 1000'')
   \<and> getClient example_config homeless_world =
       (Fatal ''Unable to get path to cached credential file. %v''
          [AError (Failure ''user: unknown userid 1000'')],
        homeless_world)"
proof -
  have unknown: "user_Current homeless_world = Inl (Failure ''user: unknown userid 1000'')"
    by (simp add: example_defs)
  show ?thesis
    using unknown_user_is_fatal [OF unknown, of example_config] unknown by simp
qed

text \<open>
  The error of \<open>os.MkdirAll\<close> is dropped in \<open>tokenCacheFile\<close> and surfaces late. With a
  home directory that is not writable, \<open>getClient\<close> still prompts, reads the code and
  exchanges it, and only then ends in \<open>log.Fatalf\<close>, on the error of \<open>os.OpenFile\<close>.
\<close>

theorem mkdir_error_surfaces_at_open:
  "fst (os_MkdirAll (cache_dir_of example_home) perm_0700 (fs readonly_home_world)) = Some EACCES
   \<and> fst (getClient example_config readonly_home_world)
       = Fatal ''Unable to cache oauth token: %v'' [AError ENOENT]
   \<and> trace (snd (getClient example_config readonly_home_world))
       = [Printf prompt_format [AString (AuthCodeURL example_config ''state-token'' [AccessTypeOffline])],
          Scan (Some ''4/code''),
          Exchange example_config ''4/code'',
          Printf (''Saving credential file to: %s'' @ newline) [APath (cache_file_of example_home)]]"
  by (simp add: run_defs example_defs mode_defs decode_defs prompt_format_def)

end
